theory Spec2Isabelle
  imports Main "HOL-Library.Sublist"
begin

section \<open>Text, exceptions and Python built-ins used by the checkers\<close>

text \<open>
  Python \<open>str\<close> values are modelled as \<open>string\<close> (lists of 8-bit characters): a text whose
  code points are below 256. The bytes of a file are modelled as a \<open>string\<close> too; on ASCII
  bytes \<open>chunk.decode('utf-8', errors='replace')\<close> returns the same characters, and theorems
  that depend on decoding are stated for ASCII files.

  An exception is a value: its class and its message. A function that can raise returns
  \<open>exn + 'a\<close>, with \<open>Inl\<close> for the exception that leaves the function.
\<close>

datatype exn_class =
  FileNotFoundError | PermissionError | NameError | AttributeError | OtherException

type_synonym exn = "exn_class \<times> string"


text \<open>\<open>str.splitlines()\<close>: the line boundaries among the code points below 256 are
  \<open>\n\<close>, \<open>\r\<close>, \<open>\r\n\<close>, \<open>\v\<close>, \<open>\f\<close>, \<open>\x1c\<close>, \<open>\x1d\<close>, \<open>\x1e\<close> and \<open>\x85\<close>;
  the boundaries are dropped and no empty string follows a final boundary.\<close>

definition is_linebreak :: "char \<Rightarrow> bool" where
  "is_linebreak c =
     (c \<in> set [CHR 0x0A, CHR 0x0B, CHR 0x0C, CHR 0x0D, CHR 0x1C, CHR 0x1D, CHR 0x1E, CHR 0x85])"

fun splitlines_from :: "string \<Rightarrow> string \<Rightarrow> string list" where
  "splitlines_from cur [] = (if cur = [] then [] else [cur])"
| "splitlines_from cur [c] = (if is_linebreak c then [cur] else [cur @ [c]])"
| "splitlines_from cur (c # d # cs) =
     (if c = CHR 0x0D \<and> d = CHR 0x0A then cur # splitlines_from [] cs
      else if is_linebreak c then cur # splitlines_from [] (d # cs)
      else splitlines_from (cur @ [c]) (d # cs))"

definition splitlines :: "string \<Rightarrow> string list" where
  "splitlines s = splitlines_from [] s"

text \<open>\<open>xs[-n:]\<close> for an integer \<open>n\<close>: the last \<open>n\<close> elements when \<open>n > 0\<close> (all of them
  when there are fewer), the whole list when \<open>n = 0\<close> (\<open>-0\<close> is \<open>0\<close>), and the list
  without its first \<open>-n\<close> elements when \<open>n < 0\<close>.\<close>

definition slice_from_minus :: "int \<Rightarrow> 'a list \<Rightarrow> 'a list" where
  "slice_from_minus n xs =
     (if 0 < n then drop (length xs - nat n) xs
      else if n = 0 then xs
      else drop (nat (- n)) xs)"

text \<open>\<open>str.isspace()\<close>, which is also the class \<open>\s\<close> of \<open>re\<close> on \<open>str\<close> patterns.\<close>

definition is_space :: "char \<Rightarrow> bool" where
  "is_space c =
     (c \<in> set [CHR 0x09, CHR 0x0A, CHR 0x0B, CHR 0x0C, CHR 0x0D, CHR 0x1C, CHR 0x1D, CHR 0x1E,
                CHR 0x1F, CHR 0x20, CHR 0x85, CHR 0xA0])"

definition strip :: "string \<Rightarrow> string" where
  "strip s = rev (dropWhile is_space (rev (dropWhile is_space s)))"

text \<open>\<open>str.lower()\<close>: \<open>A\<close>..\<open>Z\<close> and the capital letters \<open>0xC0\<close>..\<open>0xDE\<close> (without the
  sign \<open>0xD7\<close>) move up by 32, which sets bit 5 of the code point.
  \<open>str.upper()\<close> clears that bit for \<open>a\<close>..\<open>z\<close> and \<open>0xE0\<close>..\<open>0xFE\<close> (without \<open>0xF7\<close>) and
  turns \<open>0xDF\<close> into \<open>SS\<close>; the two code points it sends above 255 (\<open>0xB5\<close>, \<open>0xFF\<close>) are
  left as they are, which changes no comparison with a text of ASCII capitals.\<close>

definition lower_char :: "char \<Rightarrow> char" where
  "lower_char c =
     (let k = (of_char c :: nat) in
      if (65 \<le> k \<and> k \<le> 90) \<or> (192 \<le> k \<and> k \<le> 222 \<and> k \<noteq> 215)
      then Char (digit0 c) (digit1 c) (digit2 c) (digit3 c) (digit4 c) True (digit6 c) (digit7 c)
      else c)"

definition lower :: "string \<Rightarrow> string" where
  "lower s = map lower_char s"

definition upper_char :: "char \<Rightarrow> string" where
  "upper_char c =
     (let k = (of_char c :: nat) in
      if (97 \<le> k \<and> k \<le> 122) \<or> (224 \<le> k \<and> k \<le> 254 \<and> k \<noteq> 247)
      then [Char (digit0 c) (digit1 c) (digit2 c) (digit3 c) (digit4 c) False (digit6 c) (digit7 c)]
      else if k = 223 then ''SS''
      else [c])"

definition upper :: "string \<Rightarrow> string" where
  "upper s = concat (map upper_char s)"

text \<open>A text between single quotes, as \<open>f"'{s}'"\<close> gives.\<close>

definition quoted :: "string \<Rightarrow> string" where
  "quoted s = [CHR 0x27] @ s @ [CHR 0x27]"

text \<open>\<open>sub in s\<close> on strings.\<close>

fun contains_str :: "string \<Rightarrow> string \<Rightarrow> bool" where
  "contains_str sub [] = (sub = [])"
| "contains_str sub (c # cs) = (prefix sub (c # cs) \<or> contains_str sub cs)"

text \<open>\<open>s.split(sep)[0]\<close> for a non-empty separator: the text before its first occurrence,
  the whole text when it does not occur.\<close>

fun split_first :: "string \<Rightarrow> string \<Rightarrow> string" where
  "split_first sep [] = []"
| "split_first sep (c # cs) = (if prefix sep (c # cs) then [] else c # split_first sep cs)"

text \<open>\<open>s.split(',')\<close>: the pieces between the commas, one more than there are commas.\<close>

fun split_comma :: "string \<Rightarrow> string list" where
  "split_comma [] = [[]]"
| "split_comma (c # cs) =
     (if c = CHR '','' then [] # split_comma cs
      else (case split_comma cs of [] \<Rightarrow> [[c]] | p # ps \<Rightarrow> (c # p) # ps))"

text \<open>\<open>str(n)\<close> for an integer.\<close>

definition digit_char :: "nat \<Rightarrow> char" where
  "digit_char d = (''0123456789'' ! d)"

function str_nat :: "nat \<Rightarrow> string" where
  "str_nat n = (if n < 10 then [digit_char n] else str_nat (n div 10) @ [digit_char (n mod 10)])"
  by pat_completeness auto
termination
  by (relation "measure id") auto

declare str_nat.simps [simp del]


section \<open>Regular expressions of the \<open>re\<close> module\<close>

text \<open>The patterns of the log analyzer use literals, character classes, alternation,
  concatenation and repetition. \<open>rx_match r s\<close> says that \<open>r\<close> matches the whole of \<open>s\<close>; it is
  computed with derivatives, the constructors \<open>alt\<close> and \<open>seq\<close> dropping the branches that
  cannot match any more.\<close>

datatype rx = Nul | Eps | Sym "char \<Rightarrow> bool" | Alt rx rx | Seq rx rx | Star rx

fun nullable :: "rx \<Rightarrow> bool" where
  "nullable Nul = False"
| "nullable Eps = True"
| "nullable (Sym p) = False"
| "nullable (Alt r s) = (nullable r \<or> nullable s)"
| "nullable (Seq r s) = (nullable r \<and> nullable s)"
| "nullable (Star r) = True"

definition alt :: "rx \<Rightarrow> rx \<Rightarrow> rx" where
  "alt r s = (if r = Nul then s else if s = Nul then r else Alt r s)"

definition seq :: "rx \<Rightarrow> rx \<Rightarrow> rx" where
  "seq r s = (if r = Nul \<or> s = Nul then Nul else if r = Eps then s else Seq r s)"

fun deriv :: "char \<Rightarrow> rx \<Rightarrow> rx" where
  "deriv c Nul = Nul"
| "deriv c Eps = Nul"
| "deriv c (Sym p) = (if p c then Eps else Nul)"
| "deriv c (Alt r s) = alt (deriv c r) (deriv c s)"
| "deriv c (Seq r s) =
     (if nullable r then alt (seq (deriv c r) s) (deriv c s) else seq (deriv c r) s)"
| "deriv c (Star r) = seq (deriv c r) (Star r)"

definition rx_match :: "rx \<Rightarrow> string \<Rightarrow> bool" where
  "rx_match r s = nullable (foldl (\<lambda>r c. deriv c r) r s)"

definition seqs :: "rx list \<Rightarrow> rx" where
  "seqs rs = foldr Seq rs Eps"

definition plus :: "rx \<Rightarrow> rx" where
  "plus r = Seq r (Star r)"

definition lit :: "string \<Rightarrow> rx" where
  "lit s = seqs (map (\<lambda>c. Sym (\<lambda>d. d = c)) s)"

text \<open>A literal under \<open>re.IGNORECASE\<close>.\<close>

definition lit_ci :: "string \<Rightarrow> rx" where
  "lit_ci s = seqs (map (\<lambda>c. Sym (\<lambda>d. lower_char d = lower_char c)) s)"

definition any_char :: rx where
  "any_char = Sym (\<lambda>c. True)"

text \<open>\<open>.\<close> matches every character but the newline.\<close>

definition dot :: rx where
  "dot = Sym (\<lambda>c. c \<noteq> CHR 0x0A)"

definition ws :: rx where
  "ws = Sym is_space"

definition is_digit :: "char \<Rightarrow> bool" where
  "is_digit c = (48 \<le> (of_char c :: nat) \<and> (of_char c :: nat) \<le> 57)"

definition digit :: rx where
  "digit = Sym is_digit"

definition is_ascii_letter :: "char \<Rightarrow> bool" where
  "is_ascii_letter c =
     (let k = (of_char c :: nat) in (65 \<le> k \<and> k \<le> 90) \<or> (97 \<le> k \<and> k \<le> 122))"

text \<open>\<open>\w\<close>: the alphanumeric code points and the underscore.\<close>

definition is_word :: "char \<Rightarrow> bool" where
  "is_word c =
     (let k = (of_char c :: nat) in
      is_ascii_letter c \<or> is_digit c \<or> c = CHR ''_'' \<or>
      k \<in> set [170, 178, 179, 181, 185, 186, 188, 189, 190] \<or>
      (192 \<le> k \<and> k \<noteq> 215 \<and> k \<noteq> 247))"

text \<open>\<open>pattern.search(s)\<close> as a test: the pattern matches somewhere in \<open>s\<close>.\<close>

definition rx_search :: "rx \<Rightarrow> string \<Rightarrow> bool" where
  "rx_search r s = rx_match (Seq (Star any_char) (Seq r (Star any_char))) s"

section \<open>LogAnalyzer: the log tailer\<close>

text \<open>What \<open>_efficient_tail\<close> sees of the host: \<open>os.path.exists\<close>, \<open>os.access(_, R_OK)\<close>,
  and the bytes that opening and reading the file gives, or the exception it raises.\<close>

record log_host =
  path_exists :: "string \<Rightarrow> bool"
  access_read :: "string \<Rightarrow> bool"
  read_bytes :: "string \<Rightarrow> exn + string"

definition buffer_size :: nat where
  "buffer_size = 1024 * 4"

text \<open>\<open>chunk.decode('utf-8', errors='replace')\<close> on a chunk of ASCII bytes: the same
  characters. With \<open>errors='replace'\<close> the call does not raise, so the \<open>latin-1\<close> fallback of
  the \<open>except\<close> branch is never taken.\<close>

definition decode :: "string \<Rightarrow> string" where
  "decode chunk = chunk"

text \<open>One pass of the \<open>while\<close> body: the chunk is split into lines; when lines were already
  found and the chunk has lines, the chunk's last line is prepended to the first line found
  and removed from the chunk's lines; the chunk's lines then go in front.\<close>

definition stitch :: "string list \<Rightarrow> string list \<Rightarrow> string list" where
  "stitch current_lines lines_found =
     (if lines_found \<noteq> [] \<and> current_lines \<noteq> []
      then butlast current_lines @ ((last current_lines @ hd lines_found) # tl lines_found)
      else current_lines @ lines_found)"

function tail_loop :: "string \<Rightarrow> int \<Rightarrow> string list \<Rightarrow> nat \<Rightarrow> string list" where
  "tail_loop file n_lines lines_found bytes_read_total =
     (if int (length lines_found) < n_lines + 1 \<and> bytes_read_total < length file
      then
        (let offset = min buffer_size (length file - bytes_read_total);
             total = bytes_read_total + offset;
             chunk = take offset (drop (length file - total) file);
             current_lines = splitlines (decode chunk)
         in tail_loop file n_lines (stitch current_lines lines_found) total)
      else lines_found)"
  by pat_completeness auto
termination
  by (relation "measure (\<lambda>(file, n_lines, lines_found, bytes_read_total).
        length file - bytes_read_total)") (auto simp: buffer_size_def)

declare tail_loop.simps [simp del]

definition efficient_tail :: "log_host \<Rightarrow> string option \<Rightarrow> int \<Rightarrow> exn + string list" where
  "efficient_tail host filepath n_lines =
     (case filepath of
        None \<Rightarrow> Inl (FileNotFoundError, ''Log file not found at path not configured'')
      | Some p \<Rightarrow>
          if p = [] then Inl (FileNotFoundError, ''Log file not found at path not configured'')
          else if \<not> path_exists host p then Inl (FileNotFoundError, ''Log file not found at '' @ p)
          else if \<not> access_read host p
            then Inl (PermissionError, ''No read permission for log file at '' @ p)
          else
            (case read_bytes host p of
               Inl e \<Rightarrow> Inl e
             | Inr file \<Rightarrow>
                 if length file = 0 then Inr []
                 else Inr (slice_from_minus n_lines (tail_loop file n_lines [] 0))))"

section \<open>LogAnalyzer: the log filter\<close>

text \<open>\<open>LOG_LINE_REGEX\<close>, with the alternative of the group \<open>level\<close> fixed to one level name.
  \<open>match\<close> anchors the pattern at the start of the line; the final \<open>$\<close> accepts the end of the
  line or a last newline.\<close>

definition log_levels :: "string list" where
  "log_levels = [''INFO'', ''WARNING'', ''ERROR'', ''CRITICAL'', ''DEBUG'', ''TEST'']"

definition is_database_char :: "char \<Rightarrow> bool" where
  "is_database_char c = (is_ascii_letter c \<or> is_digit c \<or> c \<in> set ''_?.-'')"

definition LOG_LINE_REGEX :: "string \<Rightarrow> rx" where
  "LOG_LINE_REGEX level =
     seqs [digit, digit, digit, digit, lit ''-'', digit, digit, lit ''-'', digit, digit, lit '' '',
           digit, digit, lit '':'', digit, digit, lit '':'', digit, digit, lit '','',
           digit, digit, digit, plus ws,
           plus digit, plus ws,
           lit level, plus ws,
           Star (Sym is_database_char), plus ws,
           plus (Sym (\<lambda>c. c \<noteq> CHR '':'')), lit '':'', plus ws,
           Star dot, Alt Eps (Sym (\<lambda>c. c = CHR 0x0A))]"

text \<open>\<open>LOG_LINE_REGEX.match(line)\<close>: \<open>None\<close> when the line does not match, and otherwise the
  text of the group \<open>level\<close>. The position where the level starts is fixed by the line (the
  digits and the white space before it cannot be cut in two ways) and no level name is the
  start of another one, so the group is the one level name with which the pattern matches.\<close>

definition log_line_match :: "string \<Rightarrow> string option" where
  "log_line_match line = find (\<lambda>level. rx_match (LOG_LINE_REGEX level) line) log_levels"

text \<open>The keyword test of the loop body: no test for \<open>None\<close> and for the empty keyword.\<close>

definition keyword_test :: "string option \<Rightarrow> string \<Rightarrow> bool" where
  "keyword_test keyword_filter line =
     (case keyword_filter of
        None \<Rightarrow> True
      | Some k \<Rightarrow> k = [] \<or> contains_str (lower k) (lower line))"

text \<open>The body of the \<open>for\<close> loop of \<open>get_filtered_log_lines\<close>: whether the line passes. The
  grammar is a parameter, \<open>log_line_match\<close> in the program. With \<open>level_filter = None\<close> the call
  \<open>level_filter.upper()\<close> raises \<open>AttributeError\<close>.\<close>

definition line_passes ::
  "(string \<Rightarrow> string option) \<Rightarrow> string option \<Rightarrow> string option \<Rightarrow> string \<Rightarrow> exn + bool" where
  "line_passes grammar level_filter keyword_filter line =
     (if \<not> keyword_test keyword_filter line then Inr False
      else if level_filter = Some ''ALL'' then Inr True
      else
        (case grammar line of
           Some level \<Rightarrow>
             (case level_filter of
                None \<Rightarrow>
                  Inl (AttributeError,
                       quoted ''NoneType'' @ '' object has no attribute '' @ quoted ''upper'')
              | Some f \<Rightarrow> Inr (upper level = upper f))
         | None \<Rightarrow> Inr (level_filter = Some ''INFO'' \<or> level_filter = Some ''DEBUG'')))"

fun filter_lines ::
  "(string \<Rightarrow> string option) \<Rightarrow> string option \<Rightarrow> string option \<Rightarrow> string list
     \<Rightarrow> exn + string list" where
  "filter_lines grammar level_filter keyword_filter [] = Inr []"
| "filter_lines grammar level_filter keyword_filter (line # raw_lines) =
     (case line_passes grammar level_filter keyword_filter line of
        Inl e \<Rightarrow> Inl e
      | Inr passes \<Rightarrow>
          (case filter_lines grammar level_filter keyword_filter raw_lines of
             Inl e \<Rightarrow> Inl e
           | Inr filtered_lines \<Rightarrow> Inr (if passes then line # filtered_lines else filtered_lines)))"

definition get_filtered_log_lines ::
  "log_host \<Rightarrow> string option \<Rightarrow> int \<Rightarrow> string option \<Rightarrow> string option
     \<Rightarrow> exn + (string list \<times> string)" where
  "get_filtered_log_lines host log_file_path num_lines level_filter keyword_filter =
     (case log_file_path of
        None \<Rightarrow>
          Inr ([''Odoo log file path ('logfile') is not configured in odoo.conf.''], ''no_log_file'')
      | Some p \<Rightarrow>
          if p = [] then
            Inr ([''Odoo log file path ('logfile') is not configured in odoo.conf.''], ''no_log_file'')
          else
            (case efficient_tail host (Some p) num_lines of
               Inl (cls, msg) \<Rightarrow>
                 if cls = FileNotFoundError then
                   Inr ([''Log file '' @ quoted p @ '' not found.''], ''no_log_file'')
                 else if cls = PermissionError then
                   Inr ([''Permission denied when trying to read log file '' @ quoted p @ ''.''],
                        ''error_reading'')
                 else
                   Inr ([''An error occurred while reading the log file: '' @ msg], ''error_reading'')
             | Inr raw_lines \<Rightarrow>
                 if raw_lines = [] then
                   Inr ([''Log file is empty or no lines fetched.''], ''success'')
                 else
                   (case filter_lines log_line_match level_filter keyword_filter raw_lines of
                      Inl e \<Rightarrow> Inl e
                    | Inr filtered_lines \<Rightarrow>
                        if filtered_lines = [] then
                          Inr ([''No log entries found matching the current filter criteria.''],
                               ''empty_after_filter'')
                        else Inr (filtered_lines, ''success''))))"

section \<open>LogAnalyzer: the diagnostic matcher\<close>

text \<open>A rule of \<open>DIAGNOSTIC_PATTERNS\<close> is a pattern and a hint, or a function from the match to
  a hint. \<open>pattern.search(line)\<close> is modelled by a function that gives \<open>None\<close> or the match;
  of a match only the text of group 1 is read, so a match is that text (empty for a pattern
  without group).\<close>

datatype hint_or_func = Hint string | Func "string \<Rightarrow> string"

type_synonym diagnostic_rule = "(string \<Rightarrow> string option) \<times> hint_or_func"

definition search :: "rx \<Rightarrow> string \<Rightarrow> string option" where
  "search r line = (if rx_search r line then Some [] else None)"

text \<open>The pattern \<open>ImportError: No module named '(\w+)'\<close> at the start of a text: after the
  literal the longest run of word characters is group 1, and a quote must follow it (a
  shorter run is followed by a word character, so no other split matches).\<close>

definition import_error_at :: "string \<Rightarrow> string option" where
  "import_error_at s =
     (let p = ''ImportError: No module named '' @ [CHR 0x27] in
      if length p \<le> length s \<and> lower (take (length p) s) = lower p then
        (let rest = drop (length p) s; w = takeWhile is_word rest in
         if w \<noteq> [] \<and> prefix [CHR 0x27] (drop (length w) rest) then Some w else None)
      else None)"

text \<open>\<open>search\<close> takes the leftmost position where the pattern matches.\<close>

fun search_from :: "(string \<Rightarrow> string option) \<Rightarrow> string \<Rightarrow> string option" where
  "search_from at [] = at []"
| "search_from at (c # cs) =
     (case at (c # cs) of Some m \<Rightarrow> Some m | None \<Rightarrow> search_from at cs)"

definition DIAGNOSTIC_PATTERNS :: "diagnostic_rule list" where
  "DIAGNOSTIC_PATTERNS =
     [(search (seqs [lit_ci ''OperationalError: FATAL:'', plus ws,
                     lit_ci (''database '' @ [CHR 0x22]), Star dot,
                     lit_ci ([CHR 0x22] @ '' does not exist'')]),
       Hint ''Hint: The database Odoo is trying to connect to does not exist. Verify 'db_name' in odoo.conf or ensure the database is created in PostgreSQL.''),
      (search (seqs [lit_ci ''psycopg2.OperationalError: FATAL:'', plus ws,
                     lit_ci ''password authentication failed for user'']),
       Hint ''Hint: PostgreSQL password authentication failed. Check 'db_user' and 'db_password' in odoo.conf and ensure the user has correct privileges in PostgreSQL.''),
      (search (lit_ci ''Connection refused''),
       Hint ''Hint: Odoo could not connect to the PostgreSQL server. Ensure PostgreSQL is running, accessible on the configured 'db_host' and 'db_port', and check firewall rules.''),
      (search (lit_ci ''wkhtmltopdf: error''),
       Hint ''Hint: An error occurred with wkhtmltopdf, likely during PDF report generation. Ensure wkhtmltopdf is correctly installed, in PATH, and has necessary permissions/dependencies (e.g., libXrender).''),
      (search (lit_ci ''Permission denied''),
       Hint (''Hint: '' @ quoted ''Permission denied'' @ '' error detected. This could relate to file system access (e.g., attachments, log file, addons path), database access, or other system resources. Check the full error message for context.'')),
      (search_from import_error_at,
       Func (\<lambda>group1. ''Hint: Python module '' @ quoted group1 @ '' not found. This module needs to be installed in your Odoo's Python environment (e.g., using '' @ quoted (''pip install '' @ group1) @ '').'')),
      (search (seqs [lit_ci ''could not translate host name '', Star dot,
                     lit_ci '' to address: Temporary failure in name resolution'']),
       Hint ''Hint: DNS resolution failed. The server could not resolve a hostname (e.g., for outgoing connections like SMTP or external APIs). Check DNS configuration and network connectivity.''),
      (search (seqs [lit_ci ''bus'', dot, lit_ci ''Bus unavailable, Bus'', dot,
                     lit_ci ''Notification unavailable'']),
       Hint (''Hint: Longpolling/Bus features might be unavailable. This could be due to '' @ quoted ''workers > 0'' @ '' not being set, or issues with the longpolling port (default 8072) if using a reverse proxy or firewall.''))]"

definition hint_text_of :: "hint_or_func \<Rightarrow> string \<Rightarrow> string" where
  "hint_text_of hint_or_func match =
     (case hint_or_func of Hint h \<Rightarrow> h | Func f \<Rightarrow> f match)"

text \<open>The entry appended to \<open>hints\<close>: the hint text and the last 150 characters of the line.\<close>

definition hint_entry :: "string \<Rightarrow> string \<Rightarrow> string" where
  "hint_entry hint_text line =
     ''- '' @ hint_text @ '' (related to log: ...'' @ drop (length line - 150) line @ '')''"

text \<open>The inner loop over the rules, on the state \<open>(hints, unique_hints)\<close>.\<close>

fun match_rules ::
  "diagnostic_rule list \<Rightarrow> string \<Rightarrow> string list \<times> string set \<Rightarrow> string list \<times> string set" where
  "match_rules [] line st = st"
| "match_rules ((pattern_search, hint_or_func) # rules) line (hints, unique_hints) =
     (case pattern_search line of
        None \<Rightarrow> match_rules rules line (hints, unique_hints)
      | Some match \<Rightarrow>
          (let hint_text = hint_text_of hint_or_func match in
           if hint_text \<notin> unique_hints
           then match_rules rules line
                  (hints @ [hint_entry hint_text line], insert hint_text unique_hints)
           else match_rules rules line (hints, unique_hints)))"

definition is_candidate :: "string \<Rightarrow> bool" where
  "is_candidate line =
     (contains_str ''ERROR'' line \<or> contains_str ''CRITICAL'' line \<or> contains_str ''WARNING'' line)"

fun diagnose_lines ::
  "diagnostic_rule list \<Rightarrow> string list \<Rightarrow> string list \<times> string set \<Rightarrow> string list \<times> string set" where
  "diagnose_lines rules [] st = st"
| "diagnose_lines rules (line # log_lines) st =
     (if \<not> is_candidate line then diagnose_lines rules log_lines st
      else diagnose_lines rules log_lines (match_rules rules line st))"

definition no_hint_message :: string where
  "no_hint_message = ''No specific common issues automatically diagnosed from the current log view. Review logs manually for details.''"

definition diagnose_logs_with :: "diagnostic_rule list \<Rightarrow> string list \<Rightarrow> string list" where
  "diagnose_logs_with rules log_lines =
     (let hints = fst (diagnose_lines rules log_lines ([], {}))
      in if hints = [] then [no_hint_message] else hints)"

definition diagnose_logs :: "string list \<Rightarrow> string list" where
  "diagnose_logs log_lines = diagnose_logs_with DIAGNOSTIC_PATTERNS log_lines"

section \<open>Example hosts and files\<close>

text \<open>A file made of the given lines, each ended by a newline, and a host on which every
  path exists, may be read, and holds the given bytes.\<close>

definition file_of_lines :: "string list \<Rightarrow> string" where
  "file_of_lines ls = concat (map (\<lambda>l. l @ [CHR 0x0A]) ls)"

definition host_with_log :: "string \<Rightarrow> log_host" where
  "host_with_log content =
     \<lparr>path_exists = (\<lambda>p. True), access_read = (\<lambda>p. True), read_bytes = (\<lambda>p. Inr content)\<rparr>"

section \<open>What the diagnostic matcher promises\<close>

text \<open>\<open>hints_inv\<close> relates the loop state to a list of pairs \<open>(hint text, line)\<close>: the entries
  of \<open>hints\<close> are made from the pairs, in order; no hint text occurs twice; the hint texts are
  the elements of \<open>unique_hints\<close>; and each pair comes from a rule whose pattern matches that
  line of the input. \<open>distinct_hint_texts\<close> says the same of a list of hints alone.\<close>

definition from_rule :: "diagnostic_rule list \<Rightarrow> string list \<Rightarrow> string \<times> string \<Rightarrow> bool" where
  "from_rule rules log_lines pair =
     (snd pair \<in> set log_lines \<and>
      (\<exists>rule \<in> set rules. \<exists>match.
          fst rule (snd pair) = Some match \<and> fst pair = hint_text_of (snd rule) match))"

definition hints_inv ::
  "diagnostic_rule list \<Rightarrow> string list \<Rightarrow> string list \<times> string set \<Rightarrow> bool" where
  "hints_inv rules log_lines st =
     (\<exists>pairs. fst st = map (\<lambda>pair. hint_entry (fst pair) (snd pair)) pairs
        \<and> distinct (map fst pairs)
        \<and> set (map fst pairs) = snd st
        \<and> (\<forall>pair \<in> set pairs. from_rule rules log_lines pair))"

definition distinct_hint_texts :: "diagnostic_rule list \<Rightarrow> string list \<Rightarrow> string list \<Rightarrow> bool" where
  "distinct_hint_texts rules log_lines hints =
     (\<exists>pairs. hints = map (\<lambda>pair. hint_entry (fst pair) (snd pair)) pairs
        \<and> distinct (map fst pairs)
        \<and> (\<forall>pair \<in> set pairs. from_rule rules log_lines pair))"

text \<open>An example: the rule for a missing Python module, alone.\<close>

definition import_error_rule :: diagnostic_rule where
  "import_error_rule = DIAGNOSTIC_PATTERNS ! 5"

section \<open>AddonRequirementsChecker: scanning the addons\<close>

text \<open>\<open>_add_message\<close> hands the message to the logger at the given level; the log is a list
  of pairs of level and message, in the order of the calls.\<close>

type_synonym diagnostics = "(string \<times> string) list"

definition add_message :: "string \<Rightarrow> string \<Rightarrow> diagnostics \<Rightarrow> diagnostics" where
  "add_message message level log =
     (if level = ''info'' \<or> level = ''warning'' \<or> level = ''error''
      then log @ [(level, message)] else log)"

text \<open>What the scanner sees of the file system: \<open>os.path.isdir\<close>, \<open>os.listdir\<close> (the names or
  the exception), \<open>os.path.exists\<close>, and what opening a file as UTF-8 text and iterating over
  it gives: the lines delivered before an exception, and that exception when opening or
  reading fails.\<close>

record addons_host =
  os_path_isdir :: "string \<Rightarrow> bool"
  os_listdir :: "string \<Rightarrow> exn + string list"
  os_path_exists :: "string \<Rightarrow> bool"
  file_lines :: "string \<Rightarrow> string list \<times> exn option"

text \<open>\<open>os.path.join(a, b)\<close> on POSIX.\<close>

definition path_join :: "string \<Rightarrow> string \<Rightarrow> string" where
  "path_join a b =
     (if prefix ''/'' b then b
      else if a = [] \<or> last a = CHR ''/'' then a @ b
      else a @ ''/'' @ b)"

definition get_addons_paths :: "string \<Rightarrow> diagnostics \<Rightarrow> string list \<times> diagnostics" where
  "get_addons_paths paths_str log =
     (if paths_str = [] then ([], add_message ''Addons path not configured in odoo.conf.'' ''warning'' log)
      else (filter (\<lambda>p. p \<noteq> []) (map strip (split_comma paths_str)), log))"

definition parse_requirements_file ::
  "addons_host \<Rightarrow> string \<Rightarrow> diagnostics \<Rightarrow> string list \<times> diagnostics" where
  "parse_requirements_file host file_path log =
     (let packages = filter (\<lambda>line. line \<noteq> [] \<and> \<not> prefix ''#'' line)
                       (map strip (fst (file_lines host file_path)))
      in case snd (file_lines host file_path) of
           None \<Rightarrow> (packages, log)
         | Some e \<Rightarrow>
             (packages,
              add_message (''Error reading requirements file '' @ file_path @ '': '' @ snd e)
                ''error'' log))"

text \<open>An entry of \<open>module_requirements\<close>. The dictionary is a list of pairs of key and value
  in the order of insertion; assigning to a key that is there replaces its value in place.\<close>

record module_requirement =
  path :: string
  requirements_file :: string
  packages :: "string list"

fun dict_set :: "('k \<times> 'v) list \<Rightarrow> 'k \<Rightarrow> 'v \<Rightarrow> ('k \<times> 'v) list" where
  "dict_set [] k v = [(k, v)]"
| "dict_set ((k', v') # d) k v = (if k' = k then (k, v) # d else (k', v') # dict_set d k v)"

fun scan_modules ::
  "addons_host \<Rightarrow> string \<Rightarrow> string list \<Rightarrow> (string \<times> module_requirement) list \<times> diagnostics
     \<Rightarrow> (string \<times> module_requirement) list \<times> diagnostics" where
  "scan_modules host addons_path [] st = st"
| "scan_modules host addons_path (module_name # names) (module_requirements, log) =
     (let module_path = path_join addons_path module_name;
          manifest_path = path_join module_path ''__manifest__.py'';
          requirements_file_path = path_join module_path ''requirements.txt''
      in if os_path_isdir host module_path \<and> os_path_exists host manifest_path
            \<and> os_path_exists host requirements_file_path
         then
           (case parse_requirements_file host requirements_file_path log of
              (pkgs, log') \<Rightarrow>
                if pkgs \<noteq> [] then
                  scan_modules host addons_path names
                    (dict_set module_requirements module_name
                       \<lparr>path = module_path, requirements_file = requirements_file_path,
                        packages = pkgs\<rparr>,
                     log')
                else scan_modules host addons_path names (module_requirements, log'))
         else scan_modules host addons_path names (module_requirements, log))"

fun scan_paths ::
  "addons_host \<Rightarrow> string list \<Rightarrow> (string \<times> module_requirement) list \<times> diagnostics
     \<Rightarrow> (string \<times> module_requirement) list \<times> diagnostics" where
  "scan_paths host [] st = st"
| "scan_paths host (addons_path # paths) (module_requirements, log) =
     (if \<not> os_path_isdir host addons_path then
        scan_paths host paths
          (module_requirements,
           add_message (''Addons path does not exist or is not a directory: '' @ addons_path)
             ''warning'' log)
      else
        (case os_listdir host addons_path of
           Inl e \<Rightarrow>
             scan_paths host paths
               (module_requirements,
                add_message (''Error scanning addons path '' @ addons_path @ '': '' @ snd e)
                  ''error'' log)
         | Inr names \<Rightarrow>
             scan_paths host paths
               (scan_modules host addons_path names (module_requirements, log))))"

definition find_requirements ::
  "addons_host \<Rightarrow> string list \<Rightarrow> diagnostics
     \<Rightarrow> (string \<times> module_requirement) list \<times> diagnostics" where
  "find_requirements host addons_paths log =
     (if addons_paths = [] then ([], add_message ''No addons paths to scan.'' ''warning'' log)
      else scan_paths host addons_paths ([], log))"

text \<open>An example: one addons directory \<open>/addons\<close> with one module \<open>m\<close>, whose files all exist
  and whose requirements file reads as given.\<close>

definition addons_with_file :: "string list \<times> exn option \<Rightarrow> addons_host" where
  "addons_with_file content =
     \<lparr>os_path_isdir = (\<lambda>p. p = ''/addons'' \<or> p = ''/addons/m''),
      os_listdir = (\<lambda>p. Inr [''m'']),
      os_path_exists = (\<lambda>p. True),
      file_lines = (\<lambda>p. content)\<rparr>"


section \<open>AddonRequirementsChecker: checking installed packages\<close>

text \<open>What the version check sees of the Python environment.
  \<^item> \<open>PACKAGING_LIB_AVAILABLE\<close>: the import of \<open>packaging\<close> at the top of the module succeeded.
  \<^item> \<open>importlib_metadata_imported\<close>: \<open>import importlib.metadata as importlib_metadata\<close>
    succeeded, so the name \<open>importlib_metadata\<close> is bound and \<open>pkg_resources\<close> is not; otherwise
    \<open>pkg_resources\<close> was imported and is the bound name.
  \<^item> \<open>backport_in_sys_modules\<close>: the value of \<open>'importlib_metadata' in sys.modules\<close>. The
    standard module is registered under the key \<open>importlib.metadata\<close>; the key tested is
    there only when the separate package \<open>importlib_metadata\<close> has been imported by someone.
  \<^item> The functions of \<open>packaging\<close>, \<open>importlib.metadata\<close> and \<open>pkg_resources\<close>, over any type
    \<open>'v\<close> of versions and \<open>'s\<close> of specifier sets: \<open>Requirement(spec)\<close> gives the name and the
    specifier set or raises; \<open>specifier_nonempty\<close> is the truth value of a specifier set;
    \<open>specifier_contains s v\<close> is \<open>v in s\<close>.\<close>

datatype dist_lookup = Dist string | NotFound | Fails exn

record ('v, 's) python_env =
  PACKAGING_LIB_AVAILABLE :: bool
  importlib_metadata_imported :: bool
  backport_in_sys_modules :: bool
  Requirement :: "string \<Rightarrow> exn + (string \<times> 's)"
  canonicalize_name :: "string \<Rightarrow> string"
  parse_version :: "string \<Rightarrow> exn + 'v"
  specifier_contains :: "'s \<Rightarrow> 'v \<Rightarrow> bool"
  specifier_nonempty :: "'s \<Rightarrow> bool"
  str_version :: "'v \<Rightarrow> string"
  str_specifier :: "'s \<Rightarrow> string"
  importlib_distribution :: "string \<Rightarrow> dist_lookup"
  pkg_resources_get_distribution :: "string \<Rightarrow> dist_lookup"

definition name_error :: "string \<Rightarrow> exn" where
  "name_error name = (NameError, ''name '' @ quoted name @ '' is not defined'')"

text \<open>The \<open>if\<close> inside the \<open>try\<close>: the lookup of the distribution, through the name that the
  test on \<open>sys.modules\<close> selects; using an unbound name raises \<open>NameError\<close>.\<close>

definition distribution :: "('v, 's) python_env \<Rightarrow> string \<Rightarrow> exn + dist_lookup" where
  "distribution env name =
     (if backport_in_sys_modules env then
        (if importlib_metadata_imported env then Inr (importlib_distribution env name)
         else Inl (name_error ''importlib_metadata''))
      else
        (if importlib_metadata_imported env then Inl (name_error ''pkg_resources'')
         else Inr (pkg_resources_get_distribution env name)))"

text \<open>The expression in the header of the first \<open>except\<close> clause,
  \<open>importlib_metadata.PackageNotFoundError if 'importlib_metadata' in sys.modules else
  pkg_resources.DistributionNotFound\<close>: the exception that its evaluation raises, if any.\<close>

definition not_found_class :: "('v, 's) python_env \<Rightarrow> exn option" where
  "not_found_class env =
     (if backport_in_sys_modules env then
        (if importlib_metadata_imported env then None else Some (name_error ''importlib_metadata''))
      else
        (if importlib_metadata_imported env then Some (name_error ''pkg_resources'') else None))"

text \<open>A \<open>try\<close> statement with the clauses \<open>except <not found class>\<close> and \<open>except Exception\<close>.
  When the body raises, the header of the first clause is evaluated; an exception raised by
  that evaluation leaves the whole statement (no later clause is tried).\<close>

datatype 'a body = Returns 'a | RaisesNotFound | Raises exn

definition try_except :: "'a body \<Rightarrow> exn option \<Rightarrow> 'a \<Rightarrow> (exn \<Rightarrow> 'a) \<Rightarrow> exn + 'a" where
  "try_except body header on_not_found on_exception =
     (case body of
        Returns r \<Rightarrow> Inr r
      | RaisesNotFound \<Rightarrow> (case header of Some e \<Rightarrow> Inl e | None \<Rightarrow> Inr on_not_found)
      | Raises e \<Rightarrow> (case header of Some e' \<Rightarrow> Inl e' | None \<Rightarrow> Inr (on_exception e)))"

type_synonym check_result = "bool \<times> string \<times> string option"

definition check_package_installed_basic ::
  "('v, 's) python_env \<Rightarrow> string \<Rightarrow> exn + check_result" where
  "check_package_installed_basic env package_name_no_version =
     try_except
       (case distribution env package_name_no_version of
          Inl e \<Rightarrow> Raises e
        | Inr (Dist version) \<Rightarrow> Returns (True, version, None)
        | Inr NotFound \<Rightarrow> RaisesNotFound
        | Inr (Fails e) \<Rightarrow> Raises e)
       (not_found_class env)
       (False, ''Not installed'', None)
       (\<lambda>e. (False, ''Error checking package'', None))"

text \<open>The chain of \<open>split(...)[0]\<close> and the final \<open>strip()\<close> that cut a name out of a spec.\<close>

definition name_only :: "string \<Rightarrow> string" where
  "name_only package_spec =
     strip (split_first ''<'' (split_first ''>'' (split_first ''~='' (split_first ''!=''
       (split_first ''<='' (split_first ''>='' (split_first ''=='' package_spec)))))))"

definition check_package_installed_advanced ::
  "('v, 's) python_env \<Rightarrow> string \<Rightarrow> exn + check_result" where
  "check_package_installed_advanced env package_spec =
     (let (package_name_normalized, required_version_specifier) =
            (case Requirement env package_spec of
               Inr (name, specifier) \<Rightarrow> (canonicalize_name env name, Some specifier)
             | Inl e \<Rightarrow> (canonicalize_name env (name_only package_spec), None));
          required_str =
            (case required_version_specifier of
               Some s \<Rightarrow> if specifier_nonempty env s then Some (str_specifier env s) else None
             | None \<Rightarrow> None)
      in try_except
           (case distribution env package_name_normalized of
              Inl e \<Rightarrow> Raises e
            | Inr NotFound \<Rightarrow> RaisesNotFound
            | Inr (Fails e) \<Rightarrow> Raises e
            | Inr (Dist installed_version_str) \<Rightarrow>
                (case parse_version env installed_version_str of
                   Inl e \<Rightarrow> Raises e
                 | Inr installed_version \<Rightarrow>
                     (case required_version_specifier of
                        None \<Rightarrow> Returns (True, str_version env installed_version, None)
                      | Some s \<Rightarrow>
                          if specifier_nonempty env s then
                            (if specifier_contains env s installed_version
                             then Returns (True, str_version env installed_version,
                                           Some (str_specifier env s))
                             else Returns (False,
                                    ''Version conflict: Installed ''
                                      @ str_version env installed_version
                                      @ '', Required '' @ str_specifier env s,
                                    Some (str_specifier env s)))
                          else Returns (True, str_version env installed_version, None))))
           (not_found_class env)
           (False, ''Not installed'', required_str)
           (\<lambda>e. (False, ''Error checking: '' @ snd e, required_str)))"

definition check_package_installed ::
  "('v, 's) python_env \<Rightarrow> string \<Rightarrow> exn + check_result" where
  "check_package_installed env package_spec =
     (if PACKAGING_LIB_AVAILABLE env then check_package_installed_advanced env package_spec
      else
        (case check_package_installed_basic env (name_only package_spec) of
           Inl e \<Rightarrow> Inl e
         | Inr (is_installed, status_msg, unused) \<Rightarrow>
             if \<not> is_installed \<and> status_msg = ''Not installed''
             then Inr (is_installed, status_msg, Some package_spec)
             else Inr (is_installed, status_msg, None)))"

text \<open>\<open>analyze_dependencies\<close>. An entry of \<open>to_install\<close>, \<open>satisfied\<close> and \<open>errors\<close> is the
  triple of the module, the package spec and the reason, installed version or error. The
  text \<open>summary_lines\<close>, a rendering of the same three lists for display, is left out.\<close>

record analysis =
  to_install :: "(string \<times> string \<times> string) list"
  satisfied :: "(string \<times> string \<times> string) list"
  errors :: "(string \<times> string \<times> string) list"

fun check_packages ::
  "('v, 's) python_env \<Rightarrow> string \<Rightarrow> string list \<Rightarrow> analysis \<Rightarrow> exn + analysis" where
  "check_packages env module_name [] a = Inr a"
| "check_packages env module_name (package_spec # specs) a =
     (case check_package_installed env package_spec of
        Inl e \<Rightarrow> Inl e
      | Inr (is_installed, status_msg, req_ver_spec_str) \<Rightarrow>
          check_packages env module_name specs
            (if is_installed then
               a\<lparr>satisfied := satisfied a @ [(module_name, package_spec, status_msg)]\<rparr>
             else if contains_str ''Not installed'' status_msg
                     \<or> contains_str ''Version conflict'' status_msg then
               a\<lparr>to_install := to_install a @ [(module_name, package_spec, status_msg)]\<rparr>
             else
               a\<lparr>errors := errors a @ [(module_name, package_spec, status_msg)]\<rparr>))"

fun analyze_modules ::
  "('v, 's) python_env \<Rightarrow> (string \<times> module_requirement) list \<Rightarrow> analysis \<Rightarrow> exn + analysis" where
  "analyze_modules env [] a = Inr a"
| "analyze_modules env ((module_name, details) # rest) a =
     (if packages details = [] then analyze_modules env rest a
      else
        (case check_packages env module_name (packages details) a of
           Inl e \<Rightarrow> Inl e
         | Inr a' \<Rightarrow> analyze_modules env rest a'))"

definition analyze_dependencies ::
  "('v, 's) python_env \<Rightarrow> addons_host \<Rightarrow> string list \<Rightarrow> exn + analysis" where
  "analyze_dependencies env host addons_paths =
     (let module_requirements_map = fst (find_requirements host addons_paths [])
      in if module_requirements_map = []
         then Inr \<lparr>to_install = [], satisfied = [], errors = []\<rparr>
         else analyze_modules env module_requirements_map
                \<lparr>to_install = [], satisfied = [], errors = []\<rparr>)"

text \<open>An example environment. Versions are lists of numbers and a specifier set is a list of
  comparisons; \<open>packaging\<close> is present, \<open>importlib.metadata\<close> was imported, and the package
  \<open>importlib_metadata\<close> is in \<open>sys.modules\<close>. It knows the two specs \<open>libfoo>=1.2,<2.0\<close> and
  \<open>libbar\<close>, and \<open>libfoo\<close> is installed at version 1.5.0.\<close>

fun version_less :: "nat list \<Rightarrow> nat list \<Rightarrow> bool" where
  "version_less [] [] = False"
| "version_less [] (y # ys) = True"
| "version_less (x # xs) [] = False"
| "version_less (x # xs) (y # ys) = (x < y \<or> (x = y \<and> version_less xs ys))"

fun dotted :: "nat list \<Rightarrow> string" where
  "dotted [] = []"
| "dotted [n] = str_nat n"
| "dotted (n # m # ns) = str_nat n @ ''.'' @ dotted (m # ns)"

definition example_env :: "(nat list, (string \<times> nat list) list) python_env" where
  "example_env =
     \<lparr>PACKAGING_LIB_AVAILABLE = True,
      importlib_metadata_imported = True,
      backport_in_sys_modules = True,
      Requirement = (\<lambda>spec.
        if spec = ''libfoo>=1.2,<2.0'' then Inr (''libfoo'', [(''>='', [1, 2]), (''<'', [2, 0])])
        else if spec = ''libbar'' then Inr (''libbar'', [])
        else Inl (OtherException, ''Invalid requirement'')),
      canonicalize_name = lower,
      parse_version = (\<lambda>text.
        if text = ''1.5.0'' then Inr [1, 5, 0] else Inl (OtherException, ''Invalid version'')),
      specifier_contains = (\<lambda>s v.
        list_all (\<lambda>cmp. if fst cmp = ''>='' then \<not> version_less v (snd cmp)
                         else fst cmp = ''<'' \<and> version_less v (snd cmp)) s),
      specifier_nonempty = (\<lambda>s. s \<noteq> []),
      str_version = dotted,
      str_specifier = (\<lambda>s. concat (map (\<lambda>cmp. fst cmp @ dotted (snd cmp)) s)),
      importlib_distribution = (\<lambda>name. if name = ''libfoo'' then Dist ''1.5.0'' else NotFound),
      pkg_resources_get_distribution = (\<lambda>name. NotFound)\<rparr>"

text \<open>The same environment as Python 3.8 or later gives it when nobody has imported the
  package \<open>importlib_metadata\<close>: \<open>'importlib_metadata' in sys.modules\<close> is false.\<close>

definition python38_env :: "(nat list, (string \<times> nat list) list) python_env" where
  "python38_env = example_env\<lparr>backport_in_sys_modules := False\<rparr>"

definition python38_env_basic :: "(nat list, (string \<times> nat list) list) python_env" where
  "python38_env_basic = python38_env\<lparr>PACKAGING_LIB_AVAILABLE := False\<rparr>"

section \<open>AddonRequirementsChecker: installing packages\<close>


text \<open>The result: the three values returned, and what was done to the host, the commands
  started with the timeout given to \<open>communicate\<close>, and the commands whose process was
  killed.\<close>

record install_result =
  success :: "string list"
  failed :: "(string \<times> string) list"
  log_lines :: "string list"
  invoked :: "(string list \<times> nat) list"
  killed :: "string list list"











section \<open>Properties of the log tailer\<close>










lemma tail_loop_single_chunk:
  assumes "bs \<noteq> []" "length bs \<le> buffer_size" "0 \<le> n"
  shows "tail_loop bs n [] 0 = splitlines bs"
proof -
  have "tail_loop bs n [] 0 = tail_loop bs n (splitlines bs) (length bs)"
    using assms by (subst tail_loop.simps) (simp add: Let_def stitch_def decode_def min_def)
  also have "\<dots> = splitlines bs" by (subst tail_loop.simps) simp
  finally show ?thesis .
qed

lemma splitlines_from_line:
  "\<forall>c \<in> set l. \<not> is_linebreak c \<Longrightarrow>
   splitlines_from cur (l @ CHR 0x0A # rest) = (cur @ l) # splitlines_from [] rest"
proof (induction l arbitrary: cur)
  case Nil
  show ?case by (cases rest) (simp_all add: is_linebreak_def)
next
  case (Cons c l)
  have nb: "\<not> is_linebreak c" using Cons.prems by simp
  obtain d ds where eq: "l @ CHR 0x0A # rest = d # ds" by (cases "l @ CHR 0x0A # rest") auto
  have "splitlines_from cur ((c # l) @ CHR 0x0A # rest) = splitlines_from cur (c # d # ds)"
    using eq by simp
  also have "\<dots> = splitlines_from (cur @ [c]) (d # ds)"
    using nb by (auto simp: is_linebreak_def)
  also have "\<dots> = ((cur @ [c]) @ l) # splitlines_from [] rest"
    using Cons.IH[of "cur @ [c]"] Cons.prems eq by simp
  finally show ?case by simp
qed

text \<open>A file of newline-terminated lines splits back into its lines.\<close>

lemma splitlines_file_of_lines:
  "\<forall>l \<in> set ls. \<forall>c \<in> set l. \<not> is_linebreak c \<Longrightarrow> splitlines (file_of_lines ls) = ls"
proof (induction ls)
  case Nil
  show ?case by (simp add: splitlines_def file_of_lines_def)
next
  case (Cons l ls)
  have "splitlines (file_of_lines (l # ls)) = splitlines_from [] (l @ CHR 0x0A # file_of_lines ls)"
    by (simp add: splitlines_def file_of_lines_def)
  also have "\<dots> = l # splitlines_from [] (file_of_lines ls)"
    using Cons.prems splitlines_from_line[of l "[]" "file_of_lines ls"] by simp
  finally show ?case using Cons by (simp add: splitlines_def)
qed

lemma no_linebreak_replicate_b: "\<forall>c \<in> set (replicate k (CHR ''b'')). \<not> is_linebreak c"
  by (simp add: is_linebreak_def)

text \<open>
  Claim C1. A file of exactly N newline-terminated lines, tailed with a request for N, should
  come back as its N lines, also when the file is larger than one 4KB chunk and a chunk
  boundary falls at a line boundary. The file below has the two lines \<open>a\<close> and 4095 times
  \<open>b\<close>, 4098 bytes in all: the first chunk read is the last 4096 bytes, the whole second line,
  and the second chunk is \<open>a\n\<close>. The loop takes \<open>a\<close> for the start of the line already found
  and returns one line, \<open>a\<close> followed by the 4095 \<open>b\<close>, where the file has two.
\<close>

theorem efficient_tail_glues_lines_at_chunk_boundary:
  "splitlines (file_of_lines [''a'', replicate 4095 (CHR ''b'')]) = [''a'', replicate 4095 (CHR ''b'')]
   \<and> efficient_tail (host_with_log (file_of_lines [''a'', replicate 4095 (CHR ''b'')]))
        (Some ''odoo.log'') 2 = Inr [''a'' @ replicate 4095 (CHR ''b'')]"
proof -
  define bs where "bs = replicate 4095 (CHR ''b'')"
  define fl where "fl = file_of_lines [''a'', bs]"
  have fl: "fl = CHR ''a'' # CHR 0x0A # (bs @ [CHR 0x0A])"
    by (simp add: fl_def file_of_lines_def)
  have len: "length fl = 4098" by (simp add: fl bs_def)
  have nb: "\<forall>c \<in> set bs. \<not> is_linebreak c"
    unfolding bs_def by (rule no_linebreak_replicate_b)
  have lines: "splitlines fl = [''a'', bs]"
    unfolding fl_def using nb by (intro splitlines_file_of_lines) (simp add: is_linebreak_def)
  have c1: "splitlines (decode (drop 2 fl)) = [bs]"
    using splitlines_from_line[OF nb, of "[]" "[]"] by (simp add: fl decode_def splitlines_def)
  have c2: "splitlines (decode (take 2 fl)) = [''a'']"
    by (simp add: fl decode_def splitlines_def is_linebreak_def)
  have s1: "tail_loop fl 2 [] 0 = tail_loop fl 2 [bs] 4096"
    by (subst tail_loop.simps) (simp add: len buffer_size_def Let_def c1 stitch_def)
  have s2: "tail_loop fl 2 [bs] 4096 = tail_loop fl 2 [''a'' @ bs] 4098"
    by (subst tail_loop.simps) (simp add: len buffer_size_def Let_def c2 stitch_def)
  have s3: "tail_loop fl 2 [''a'' @ bs] 4098 = [''a'' @ bs]"
    by (subst tail_loop.simps) (simp add: len)
  have tl: "tail_loop fl 2 [] 0 = [''a'' @ bs]"
    by (simp only: s1 s2 s3)
  have "efficient_tail (host_with_log fl) (Some ''odoo.log'') 2 = Inr [''a'' @ bs]"
    by (simp add: efficient_tail_def host_with_log_def len tl slice_from_minus_def)
  with lines show ?thesis by (simp add: fl_def bs_def)
qed




section \<open>Properties of the log filter\<close>

lemma filter_lines_kept:
  "filter_lines grammar lvl kw raw = Inr kept \<Longrightarrow>
   kept = filter (\<lambda>line. line_passes grammar lvl kw line = Inr True) raw"
proof (induction raw arbitrary: kept)
  case Nil
  then show ?case by simp
next
  case (Cons line raw)
  then show ?case by (auto split: sum.splits if_splits)
qed

lemma filter_lines_all:
  "kw = None \<or> kw = Some [] \<Longrightarrow> filter_lines grammar (Some ''ALL'') kw raw = Inr raw"
  by (induction raw) (auto simp: line_passes_def keyword_test_def)

lemma not_a_log_line: "log_line_match ''Traceback'' = None"
  by code_simp

lemma keyword_on_traceback:
  "\<not> keyword_test (Some ''refused'') ''Traceback''" "keyword_test (Some ''TRACE'') ''Traceback''"
  by (simp_all add: keyword_test_def lower_def lower_char_def)

text \<open>
  Claim C8. A line that fails the keyword test is dropped, whatever the grammar would say of
  it (the result does not depend on the grammar, which is not applied). A line that passes
  the keyword test and does not match the grammar is kept exactly when the level filter is
  \<open>ALL\<close>, \<open>INFO\<close> or \<open>DEBUG\<close>. The lines returned by the loop are those that pass.
\<close>

theorem log_filter_keyword_then_level:
  "(\<not> keyword_test kw line \<longrightarrow> line_passes grammar lvl kw line = Inr False)
   \<and> (keyword_test kw line \<and> log_line_match line = None \<longrightarrow>
        line_passes log_line_match lvl kw line
          = Inr (lvl = Some ''ALL'' \<or> lvl = Some ''INFO'' \<or> lvl = Some ''DEBUG''))
   \<and> (filter_lines log_line_match lvl kw raw = Inr kept \<and> line \<in> set raw \<longrightarrow>
        (line \<in> set kept \<longleftrightarrow> line_passes log_line_match lvl kw line = Inr True))"
proof (intro conjI impI)
  assume "\<not> keyword_test kw line"
  then show "line_passes grammar lvl kw line = Inr False"
    by (simp add: line_passes_def)
next
  assume "keyword_test kw line \<and> log_line_match line = None"
  then show "line_passes log_line_match lvl kw line
      = Inr (lvl = Some ''ALL'' \<or> lvl = Some ''INFO'' \<or> lvl = Some ''DEBUG'')"
    by (auto simp: line_passes_def)
next
  assume "filter_lines log_line_match lvl kw raw = Inr kept \<and> line \<in> set raw"
  then show "line \<in> set kept \<longleftrightarrow> line_passes log_line_match lvl kw line = Inr True"
    using filter_lines_kept[of log_line_match lvl kw raw kept] by auto
qed

theorem log_filter_keyword_then_level_witness:
  "\<not> keyword_test (Some ''refused'') ''Traceback''
   \<and> line_passes Some (Some ''ERROR'') (Some ''refused'') ''Traceback'' = Inr False
   \<and> keyword_test (Some ''TRACE'') ''Traceback'' \<and> log_line_match ''Traceback'' = None
   \<and> line_passes log_line_match (Some ''ERROR'') (Some ''TRACE'') ''Traceback'' = Inr False
   \<and> line_passes log_line_match (Some ''INFO'') (Some ''TRACE'') ''Traceback'' = Inr True
   \<and> filter_lines log_line_match (Some ''INFO'') (Some ''TRACE'') [''Traceback'', ''done'']
       = Inr [''Traceback'']
   \<and> ''Traceback'' \<in> set [''Traceback'', ''done'']
   \<and> ''Traceback'' \<in> set [''Traceback'']"
proof -
  have a: "line_passes Some (Some ''ERROR'') (Some ''refused'') ''Traceback''
      = Inr False"
    using log_filter_keyword_then_level[of "Some ''refused''" "''Traceback''"
        Some "Some ''ERROR''" "[]" "[]"] keyword_on_traceback(1)
    by blast
  have b: "line_passes log_line_match (Some ''ERROR'') (Some ''TRACE'') ''Traceback'' = Inr False"
    using log_filter_keyword_then_level[of "Some ''TRACE''" "''Traceback''"
        log_line_match "Some ''ERROR''" "[]" "[]"] keyword_on_traceback(2) not_a_log_line
    by simp
  have c: "line_passes log_line_match (Some ''INFO'') (Some ''TRACE'') ''Traceback'' = Inr True"
    using log_filter_keyword_then_level[of "Some ''TRACE''" "''Traceback''"
        log_line_match "Some ''INFO''" "[]" "[]"] keyword_on_traceback(2) not_a_log_line
    by simp
  have d: "line_passes log_line_match (Some ''INFO'') (Some ''TRACE'') ''done'' = Inr False"
    by (simp add: line_passes_def keyword_test_def lower_def lower_char_def)
  have e: "filter_lines log_line_match (Some ''INFO'') (Some ''TRACE'') [''Traceback'', ''done'']
      = Inr [''Traceback'']"
    by (simp add: c d)
  have f: "''Traceback'' \<in> set [''Traceback'']"
    using log_filter_keyword_then_level[of "Some ''TRACE''" "''Traceback''"
        log_line_match "Some ''INFO''" "[''Traceback'', ''done'']" "[''Traceback'']"] e c
    by simp
  from a b c e f keyword_on_traceback not_a_log_line show ?thesis by simp
qed

text \<open>
  Claim C9. With the level filter \<open>ALL\<close> and no keyword (\<open>None\<close> or the empty text), a
  non-empty list of retrieved lines is returned as it is, with the status \<open>success\<close>.
\<close>

theorem filter_all_no_keyword_identity:
  assumes "efficient_tail host (Some p) n = Inr raw"
    and "raw \<noteq> []"
    and "kw = None \<or> kw = Some []"
  shows "get_filtered_log_lines host (Some p) n (Some ''ALL'') kw = Inr (raw, ''success'')"
proof -
  have "p \<noteq> []" using assms(1) by (auto simp: efficient_tail_def)
  then show ?thesis
    using assms by (simp add: get_filtered_log_lines_def filter_lines_all)
qed

lemma tail_abc:
  "efficient_tail (host_with_log (file_of_lines [''a'', ''b'', ''c''])) (Some ''odoo.log'') 2
     = Inr [''b'', ''c'']"
proof -
  let ?bs = "file_of_lines [''a'', ''b'', ''c'']"
  have sp: "splitlines ?bs = [''a'', ''b'', ''c'']"
    by (intro splitlines_file_of_lines) (simp add: is_linebreak_def)
  have "tail_loop ?bs 2 [] 0 = splitlines ?bs"
    by (rule tail_loop_single_chunk) (simp_all add: file_of_lines_def buffer_size_def)
  then show ?thesis
    by (simp add: efficient_tail_def host_with_log_def slice_from_minus_def sp)
      (simp add: file_of_lines_def)
qed

theorem filter_all_no_keyword_identity_witness:
  "efficient_tail (host_with_log (file_of_lines [''a'', ''b'', ''c''])) (Some ''odoo.log'') 2
     = Inr [''b'', ''c'']
   \<and> [''b'', ''c''] \<noteq> []
   \<and> get_filtered_log_lines (host_with_log (file_of_lines [''a'', ''b'', ''c'']))
       (Some ''odoo.log'') 2 (Some ''ALL'') None = Inr ([''b'', ''c''], ''success'')"
  using filter_all_no_keyword_identity[OF tail_abc, of None] tail_abc by simp

text \<open>
  Claim C10. When lines were fetched and the filters remove every one of them, the result is
  the one-element list with the explanatory message and the status \<open>empty_after_filter\<close>.
\<close>

theorem all_filtered_out_message:
  assumes "efficient_tail host (Some p) n = Inr raw"
    and "raw \<noteq> []"
    and "filter_lines log_line_match lvl kw raw = Inr []"
  shows "get_filtered_log_lines host (Some p) n lvl kw
         = Inr ([''No log entries found matching the current filter criteria.''],
                ''empty_after_filter'')"
proof -
  have "p \<noteq> []" using assms(1) by (auto simp: efficient_tail_def)
  then show ?thesis
    using assms by (simp add: get_filtered_log_lines_def)
qed

theorem all_filtered_out_message_witness:
  "efficient_tail (host_with_log (file_of_lines [''a'', ''b'', ''c''])) (Some ''odoo.log'') 2
     = Inr [''b'', ''c'']
   \<and> [''b'', ''c''] \<noteq> []
   \<and> filter_lines log_line_match (Some ''ALL'') (Some ''refused'') [''b'', ''c''] = Inr []
   \<and> get_filtered_log_lines (host_with_log (file_of_lines [''a'', ''b'', ''c'']))
       (Some ''odoo.log'') 2 (Some ''ALL'') (Some ''refused'')
       = Inr ([''No log entries found matching the current filter criteria.''],
              ''empty_after_filter'')"
proof -
  have fl: "filter_lines log_line_match (Some ''ALL'') (Some ''refused'') [''b'', ''c''] = Inr []"
    by (simp add: line_passes_def keyword_test_def lower_def lower_char_def)
  have ne: "[''b'', ''c''] \<noteq> []" by simp
  from all_filtered_out_message[OF tail_abc ne fl] tail_abc fl show ?thesis by simp
qed

section \<open>Properties of the diagnostic matcher\<close>

lemma match_rules_inv:
  "set rs \<subseteq> set rules \<Longrightarrow> line \<in> set lines \<Longrightarrow> hints_inv rules lines st
   \<Longrightarrow> hints_inv rules lines (match_rules rs line st)"
proof (induction rs line st rule: match_rules.induct)
  case (1 line st)
  then show ?case by simp
next
  case (2 pattern_search hint_or_func rs line hints unique_hints)
  have sub: "set rs \<subseteq> set rules" and mem: "(pattern_search, hint_or_func) \<in> set rules"
    using "2.prems"(1) by auto
  show ?case
  proof (cases "pattern_search line")
    case None
    then show ?thesis using "2.IH"(1)[OF None sub "2.prems"(2,3)] by simp
  next
    case (Some m)
    define t where "t = hint_text_of hint_or_func m"
    show ?thesis
    proof (cases "t \<in> unique_hints")
      case True
      then show ?thesis
        using "2.IH"(3)[OF Some t_def _ sub "2.prems"(2,3)] Some by (simp add: t_def Let_def)
    next
      case False
      from "2.prems"(3) obtain pairs where
        p: "hints = map (\<lambda>pair. hint_entry (fst pair) (snd pair)) pairs"
           "distinct (map fst pairs)" "set (map fst pairs) = unique_hints"
           "\<forall>pair \<in> set pairs. from_rule rules lines pair"
        by (auto simp: hints_inv_def)
      have new: "from_rule rules lines (t, line)"
        unfolding from_rule_def using mem Some "2.prems"(2) t_def
        by (auto intro!: bexI[of _ "(pattern_search, hint_or_func)"])
      have "hints_inv rules lines (hints @ [hint_entry t line], insert t unique_hints)"
        unfolding hints_inv_def
        using p new False by (intro exI[of _ "pairs @ [(t, line)]"]) auto
      then show ?thesis
        using "2.IH"(2)[OF Some t_def _ sub "2.prems"(2)] False Some by (simp add: t_def Let_def)
    qed
  qed
qed

lemma diagnose_lines_inv:
  "set ls \<subseteq> set lines \<Longrightarrow> hints_inv rules lines st
   \<Longrightarrow> hints_inv rules lines (diagnose_lines rules ls st)"
proof (induction ls arbitrary: st)
  case Nil
  then show ?case by simp
next
  case (Cons line ls)
  then show ?case using match_rules_inv[of rules rules line lines st] by auto
qed

lemma diagnose_lines_distinct:
  "distinct_hint_texts rules lines (fst (diagnose_lines rules lines ([], {})))"
proof -
  have "hints_inv rules lines ([], {})"
    by (auto simp: hints_inv_def)
  then have "hints_inv rules lines (diagnose_lines rules lines ([], {}))"
    by (intro diagnose_lines_inv) auto
  then show ?thesis by (auto simp: hints_inv_def distinct_hint_texts_def)
qed

text \<open>
  Claim C7. The hints of one run are made from pairwise distinct hint texts, each computed by
  a rule on a line of the input, for every list of lines and every list of rules; so it is for
  \<open>diagnose_logs\<close>, which answers with these hints or, when there is none, with the single
  fallback message.
\<close>

theorem diagnose_logs_distinct_hint_texts:
  "distinct_hint_texts rules lines (fst (diagnose_lines rules lines ([], {})))
   \<and> (diagnose_logs lines = [no_hint_message]
        \<or> distinct_hint_texts DIAGNOSTIC_PATTERNS lines (diagnose_logs lines))"
  using diagnose_lines_distinct[of rules lines]
    diagnose_lines_distinct[of DIAGNOSTIC_PATTERNS lines]
  by (auto simp: diagnose_logs_def diagnose_logs_with_def Let_def)

lemma import_error_run:
  "fst (diagnose_lines [import_error_rule]
         [''ImportError: No module named 'xlrd' (ERROR)'', ''not a candidate'',
          ''importerror: no module named 'xlrd' (WARNING)''] ([], {}))
   = [hint_entry ''Hint: Python module 'xlrd' not found. This module needs to be installed in your Odoo's Python environment (e.g., using 'pip install xlrd').''
        ''ImportError: No module named 'xlrd' (ERROR)'']"
  by (simp add: import_error_rule_def DIAGNOSTIC_PATTERNS_def is_candidate_def hint_text_of_def
      import_error_at_def lower_def lower_char_def is_word_def is_ascii_letter_def is_digit_def
      quoted_def Let_def)

theorem diagnose_logs_distinct_hint_texts_witness:
  "fst (diagnose_lines [import_error_rule]
         [''ImportError: No module named 'xlrd' (ERROR)'', ''not a candidate'',
          ''importerror: no module named 'xlrd' (WARNING)''] ([], {}))
   = [hint_entry ''Hint: Python module 'xlrd' not found. This module needs to be installed in your Odoo's Python environment (e.g., using 'pip install xlrd').''
        ''ImportError: No module named 'xlrd' (ERROR)'']
   \<and> distinct_hint_texts [import_error_rule]
         [''ImportError: No module named 'xlrd' (ERROR)'', ''not a candidate'',
          ''importerror: no module named 'xlrd' (WARNING)'']
         [hint_entry ''Hint: Python module 'xlrd' not found. This module needs to be installed in your Odoo's Python environment (e.g., using 'pip install xlrd').''
            ''ImportError: No module named 'xlrd' (ERROR)'']"
  using diagnose_logs_distinct_hint_texts[of "[import_error_rule]"
      "[''ImportError: No module named 'xlrd' (ERROR)'', ''not a candidate'',
        ''importerror: no module named 'xlrd' (WARNING)'']"]
  by (simp only: import_error_run simp_thms)

section \<open>Properties of the requirement scanner\<close>







section \<open>Properties of the version check\<close>


text \<open>When the name selected by the test on \<open>sys.modules\<close> is bound, every spec gets a
  classified outcome; a spec that \<open>Requirement\<close> rejects is looked up under the name cut out
  of it.\<close>

lemma check_package_installed_returns:
  assumes "not_found_class env = None"
  shows "\<exists>r. check_package_installed env package_spec = Inr r"
proof -
  have basic: "\<exists>r. check_package_installed_basic env n = Inr r" for n
    using assms
    by (auto simp: check_package_installed_basic_def try_except_def
        split: sum.splits dist_lookup.splits body.splits)
  have adv: "\<exists>r. check_package_installed_advanced env package_spec = Inr r"
    using assms
    by (auto simp: check_package_installed_advanced_def try_except_def Let_def
        split: sum.splits dist_lookup.splits body.splits option.splits prod.splits)
  show ?thesis
  proof (cases "PACKAGING_LIB_AVAILABLE env")
    case True
    then show ?thesis using adv by (simp add: check_package_installed_def)
  next
    case False
    obtain r where "check_package_installed_basic env (name_only package_spec) = Inr r"
      using basic by blast
    then show ?thesis using False
      by (cases r) (auto simp: check_package_installed_def)
  qed
qed

text \<open>When \<open>importlib.metadata\<close> was imported and the key \<open>importlib_metadata\<close> is not in
  \<open>sys.modules\<close>, the \<open>else\<close> branch uses the unbound name \<open>pkg_resources\<close>, and so does the
  header of the first \<open>except\<close> clause: \<open>NameError\<close> leaves the function, for every spec.\<close>

lemma check_package_installed_raises:
  assumes "importlib_metadata_imported env" and "\<not> backport_in_sys_modules env"
  shows "check_package_installed env package_spec = Inl (name_error ''pkg_resources'')"
proof -
  have d: "distribution env n = Inl (name_error ''pkg_resources'')" for n
    using assms by (simp add: distribution_def)
  have h: "not_found_class env = Some (name_error ''pkg_resources'')"
    using assms by (simp add: not_found_class_def)
  show ?thesis
    by (simp add: check_package_installed_def check_package_installed_basic_def
        check_package_installed_advanced_def try_except_def d h Let_def
        split: sum.splits prod.splits)
qed

text \<open>
  Claim C5. The version check should never raise, whatever the spec. On Python 3.8 or later
  with \<open>packaging\<close> present and the package \<open>importlib_metadata\<close> not imported, it raises
  \<open>NameError\<close> for the well-formed spec \<open>libbar\<close> and for a malformed one, and also without
  \<open>packaging\<close>; the dependency analysis raises with it.
\<close>

theorem check_package_installed_raises_name_error:
  "check_package_installed python38_env ''libbar'' = Inl (name_error ''pkg_resources'')
   \<and> check_package_installed python38_env ''lib bar ==== 1'' = Inl (name_error ''pkg_resources'')
   \<and> check_package_installed python38_env_basic ''libbar'' = Inl (name_error ''pkg_resources'')
   \<and> analyze_dependencies python38_env
        (addons_with_file ([''libbar'' @ [CHR 0x0A]], None)) [''/addons'']
       = Inl (name_error ''pkg_resources'')"
proof -
  have a: "importlib_metadata_imported python38_env" "\<not> backport_in_sys_modules python38_env"
    "importlib_metadata_imported python38_env_basic"
    "\<not> backport_in_sys_modules python38_env_basic"
    by (simp_all add: python38_env_def python38_env_basic_def example_env_def)
  have scan: "fst (find_requirements (addons_with_file ([''libbar'' @ [CHR 0x0A]], None))
       [''/addons''] [])
     = [(''m'', \<lparr>path = ''/addons/m'', requirements_file = ''/addons/m/requirements.txt'',
                 packages = [''libbar'']\<rparr>)]"
    by (simp add: find_requirements_def addons_with_file_def path_join_def
        parse_requirements_file_def strip_def is_space_def Let_def)
  show ?thesis
    by (simp add: check_package_installed_raises a analyze_dependencies_def scan[simplified])
qed



section \<open>Properties of the installation orchestrator\<close>















end
